theory Spec2Isabelle
  imports Complex_Main "HOL-Library.Word" "HOL-Library.Sublist"
begin

section \<open>Strings\<close>

text \<open>
  A JavaScript string is a sequence of 16-bit code units (UTF-16, where an unpaired
  surrogate is allowed). \<open>js\<close> writes an ASCII literal as such a string.
\<close>

type_synonym code_unit = "16 word"
type_synonym jstring = "code_unit list"

definition js :: "string \<Rightarrow> jstring" where
  "js s = map of_char s"

text \<open>
  The code units that \<^verbatim>\<open>String.prototype.trim\<close> and the regular expression class
  \<^verbatim>\<open>\s\<close> take for white space: the WhiteSpace and LineTerminator code points of
  ECMAScript, all of them in the basic plane.
\<close>

definition white_space :: "code_unit list" where
  "white_space = [0x09, 0x0A, 0x0B, 0x0C, 0x0D, 0x20, 0xA0, 0x1680, 0x2000, 0x2001, 0x2002,
     0x2003, 0x2004, 0x2005, 0x2006, 0x2007, 0x2008, 0x2009, 0x200A, 0x2028, 0x2029, 0x202F,
     0x205F, 0x3000, 0xFEFF]"

definition is_space :: "code_unit \<Rightarrow> bool" where
  "is_space u = (u \<in> set white_space)"

definition trim :: "jstring \<Rightarrow> jstring" where
  "trim s = rev (dropWhile is_space (rev (dropWhile is_space s)))"

text \<open>\<^verbatim>\<open>Array.prototype.join\<close> on an array of strings.\<close>

fun join :: "jstring \<Rightarrow> jstring list \<Rightarrow> jstring" where
  "join sep [] = []"
| "join sep [x] = x"
| "join sep (x # y # xs) = x @ sep @ join sep (y # xs)"

text \<open>Surrogates: a lead followed by a trail is one code point above U+FFFF.\<close>

definition is_lead :: "code_unit \<Rightarrow> bool" where
  "is_lead u = (0xD800 \<le> u \<and> u \<le> 0xDBFF)"

definition is_trail :: "code_unit \<Rightarrow> bool" where
  "is_trail u = (0xDC00 \<le> u \<and> u \<le> 0xDFFF)"

definition pair_code_point :: "code_unit \<Rightarrow> code_unit \<Rightarrow> nat" where
  "pair_code_point u v = 0x10000 + (unat u - 0xD800) * 0x400 + (unat v - 0xDC00)"

text \<open>A string with no unpaired surrogate (\<^verbatim>\<open>isWellFormed\<close> in JavaScript).\<close>

fun well_formed :: "jstring \<Rightarrow> bool" where
  "well_formed [] = True"
| "well_formed [u] = (\<not> is_lead u \<and> \<not> is_trail u)"
| "well_formed (u # v # s) =
     (if is_lead u then is_trail v \<and> well_formed s
      else \<not> is_trail u \<and> well_formed (v # s))"

section \<open>Errors\<close>

datatype error =
    TypeError
  | ResponseError nat
  | ConnectionError
  | TimeoutError
  | OpenAIError

section \<open>Text normalizer\<close>

text \<open>
  \<^verbatim>\<open>str.replace(/<[^>]*>/g, "")\<close>: the scan goes left to right over code units (this
  expression has no \<^verbatim>\<open>u\<close> flag). At a \<^verbatim>\<open><\<close> that has a \<^verbatim>\<open>>\<close> somewhere after it,
  the match runs to the first such \<^verbatim>\<open>>\<close> and is removed; any other code unit is kept.
\<close>

function remove_tags :: "jstring \<Rightarrow> jstring" where
  "remove_tags [] = []"
| "remove_tags (u # s) =
     (if u = 0x3C \<and> 0x3E \<in> set s
      then remove_tags (tl (dropWhile (\<lambda>v. v \<noteq> 0x3E) s))
      else u # remove_tags s)"
  by pat_completeness auto
termination
proof (relation "measure length")
  show "wf (measure (length :: jstring \<Rightarrow> nat))" by simp
next
  fix u :: code_unit and s :: jstring
  have "length (tl (dropWhile (\<lambda>v. v \<noteq> 0x3E) s)) \<le> length s"
    using length_dropWhile_le [of "\<lambda>v. v \<noteq> 0x3E" s] by simp
  then show "(tl (dropWhile (\<lambda>v. v \<noteq> 0x3E) s), u # s) \<in> measure length" by simp
next
  fix u :: code_unit and s :: jstring
  show "(s, u # s) \<in> measure length" by simp
qed

text \<open>
  \<^verbatim>\<open>.replace(/[\p{Emoji_Presentation}\p{Extended_Pictographic}]/gu, "")\<close>: with the
  \<^verbatim>\<open>u\<close> flag the scan goes by code points, so a lead followed by a trail is read as
  one code point and any other code unit as a code point of its own. The two Unicode
  property tables are not part of the repository: \<open>pict\<close> says which code points they hold.
\<close>

fun remove_pictographic :: "(nat \<Rightarrow> bool) \<Rightarrow> jstring \<Rightarrow> jstring" where
  "remove_pictographic pict [] = []"
| "remove_pictographic pict [u] = (if pict (unat u) then [] else [u])"
| "remove_pictographic pict (u # v # s) =
     (if is_lead u \<and> is_trail v
      then (if pict (pair_code_point u v) then remove_pictographic pict s
            else u # v # remove_pictographic pict s)
      else (if pict (unat u) then remove_pictographic pict (v # s)
            else u # remove_pictographic pict (v # s)))"

definition normalize_text :: "(nat \<Rightarrow> bool) \<Rightarrow> jstring \<Rightarrow> jstring" where
  "normalize_text pict str = trim (remove_pictographic pict (remove_tags str))"

text \<open>No \<^verbatim>\<open><\<close> has a \<^verbatim>\<open>>\<close> after it: the first regular expression finds no match.\<close>

fun no_tag :: "jstring \<Rightarrow> bool" where
  "no_tag [] = True"
| "no_tag (u # s) = ((u \<noteq> 0x3C \<or> 0x3E \<notin> set s) \<and> no_tag s)"

text \<open>
  The TypeScript signature says \<^verbatim>\<open>str: string\<close>, but the handlers pass fields of the
  request body, which are \<^verbatim>\<open>undefined\<close> when the JSON has no such field (\<open>None\<close> here).
  Then \<^verbatim>\<open>str.replace\<close> throws a TypeError.
\<close>

definition normalize_text_js :: "(nat \<Rightarrow> bool) \<Rightarrow> jstring option \<Rightarrow> error + jstring" where
  "normalize_text_js pict str =
     (case str of None \<Rightarrow> Inl TypeError | Some s \<Rightarrow> Inr (normalize_text pict s))"

text \<open>
  An excerpt of the two property tables, for running examples: the copyright and
  registered signs (Extended_Pictographic) and the Emoticons block U+1F600..U+1F64F
  (Emoji_Presentation).
\<close>

definition pictographic_excerpt :: "nat \<Rightarrow> bool" where
  "pictographic_excerpt c = (c = 0xA9 \<or> c = 0xAE \<or> (0x1F600 \<le> c \<and> c \<le> 0x1F64F))"

section \<open>Segmenter\<close>

text \<open>
  \<^verbatim>\<open>split_segments\<close>. The sentence tokenizer is the sbd package, which is not part of the
  repository: \<open>sentences\<close> stands for \<^verbatim>\<open>tokenizer.sentences\<close>. A missing second
  argument is \<open>None\<close>; \<^verbatim>\<open>!translated_text\<close> holds for a missing and for an empty one.
\<close>

definition split_segments ::
  "(jstring \<Rightarrow> jstring list) \<Rightarrow> jstring \<Rightarrow> jstring option \<Rightarrow> jstring list \<times> jstring list option" where
  "split_segments sentences source_text translated_text =
     (let source_segments = map trim (sentences source_text) in
      case translated_text of
        None \<Rightarrow> (source_segments, None)
      | Some t \<Rightarrow>
          if t = [] then (source_segments, None)
          else
            let translated_segments = map trim (sentences t) in
            if length source_segments = length translated_segments
            then (source_segments, Some translated_segments)
            else ([trim source_text], Some [trim t]))"

text \<open>
  A tokenizer to run examples with: words are the runs of non-space code units, a
  sentence closes after every word that ends in a full stop, an exclamation mark or a
  question mark, and the words of a sentence are joined by one space. On the example texts
  of this file (plain words, no abbreviations or numbers) that is how sbd cuts.
\<close>

fun split_words :: "jstring \<Rightarrow> jstring \<Rightarrow> jstring list" where
  "split_words cur [] = (if cur = [] then [] else [cur])"
| "split_words cur (u # s) =
     (if is_space u
      then (if cur = [] then split_words [] s else cur # split_words [] s)
      else split_words (cur @ [u]) s)"

definition ends_sentence :: "jstring \<Rightarrow> bool" where
  "ends_sentence w = (case rev w of [] \<Rightarrow> False | u # _ \<Rightarrow> u = 0x2E \<or> u = 0x21 \<or> u = 0x3F)"

fun sentence_words :: "jstring list \<Rightarrow> jstring list \<Rightarrow> jstring list list" where
  "sentence_words cur [] = (if cur = [] then [] else [cur])"
| "sentence_words cur (w # ws) =
     (if ends_sentence w then (cur @ [w]) # sentence_words [] ws
      else sentence_words (cur @ [w]) ws)"

definition plain_sentences :: "jstring \<Rightarrow> jstring list" where
  "plain_sentences s = map (join [0x20]) (sentence_words [] (split_words [] s))"

section \<open>Language tags\<close>

text \<open>\<^verbatim>\<open>.replace(/\s+/g, "-")\<close>: every run of white space becomes one hyphen.\<close>

function hyphenate :: "jstring \<Rightarrow> jstring" where
  "hyphenate [] = []"
| "hyphenate (u # s) =
     (if is_space u then 0x2D # hyphenate (dropWhile is_space s) else u # hyphenate s)"
  by pat_completeness auto
termination
proof (relation "measure length")
  show "wf (measure (length :: jstring \<Rightarrow> nat))" by simp
next
  fix u :: code_unit and s :: jstring
  show "(dropWhile is_space s, u # s) \<in> measure length"
    using length_dropWhile_le [of is_space s] by simp
next
  fix u :: code_unit and s :: jstring
  show "(s, u # s) \<in> measure length" by simp
qed

text \<open>
  \<^verbatim>\<open>lang?.toLowerCase().trim().replace(/\s+/g, "-")\<close>: the optional chaining keeps a
  missing field \<^verbatim>\<open>undefined\<close>. \<open>lower\<close> stands for \<^verbatim>\<open>toLowerCase\<close>, whose Unicode
  case table is not part of the repository.
\<close>

definition normalize_lang :: "(jstring \<Rightarrow> jstring) \<Rightarrow> jstring option \<Rightarrow> jstring option" where
  "normalize_lang lower lang = map_option (\<lambda>s. hyphenate (trim (lower s))) lang"

text \<open>The test \<^verbatim>\<open>!x\<close> on a value that is a string or \<^verbatim>\<open>undefined\<close>.\<close>

definition falsy :: "jstring option \<Rightarrow> bool" where
  "falsy x = (x = None \<or> x = Some [])"

definition non_segment_languages :: "jstring list" where
  "non_segment_languages =
     [js ''arabic'', js ''japanese'', js ''korean'', js ''simplified-chinese'',
      js ''traditional-chinese'']"

text \<open>Lower case of the ASCII letters, to run examples with.\<close>

definition ascii_lower :: "jstring \<Rightarrow> jstring" where
  "ascii_lower s = map (\<lambda>u. if 0x41 \<le> u \<and> u \<le> 0x5A then u + 0x20 else u) s"

section \<open>Numbers\<close>

text \<open>
  A JavaScript number is a double: a real number, an infinity or NaN.
  \<open>below_50\<close> is the test \<^verbatim>\<open>percentage < 50\<close> of \<^verbatim>\<open>fuzzy_search\<close> on such a value; a
  comparison with NaN is false.
\<close>

datatype number = Finite real | PlusInfinity | MinusInfinity | NaN

definition below_50 :: "number \<Rightarrow> bool" where
  "below_50 x = (case x of Finite r \<Rightarrow> r < 50 | MinusInfinity \<Rightarrow> True | _ \<Rightarrow> False)"

section \<open>The search engine\<close>

record TranslationDocument =
  source_lang :: jstring
  target_lang :: jstring
  source_text :: jstring
  translated_text :: "jstring option"

text \<open>A search hit: \<^verbatim>\<open>_id\<close> and \<^verbatim>\<open>_source\<close>. Identifiers are numbers here.\<close>

record SearchHit =
  hit_id :: nat
  hit_source :: TranslationDocument

text \<open>
  The cluster: the documents of every index, in the order they were written, and the
  identifier the next new document gets. The cluster is taken to answer every request;
  a search in an index that does not exist is answered with status 404.
\<close>

record elastic =
  indices :: "jstring \<rightharpoonup> SearchHit list"
  fresh :: nat

definition stored :: "elastic \<Rightarrow> jstring \<Rightarrow> SearchHit list" where
  "stored es index_name = (case indices es index_name of None \<Rightarrow> [] | Some docs \<Rightarrow> docs)"

definition ensure_translations_index :: "jstring \<Rightarrow> elastic \<Rightarrow> elastic" where
  "ensure_translations_index index_name es =
     (if indices es index_name = None
      then es\<lparr>indices := (indices es)(index_name \<mapsto> [])\<rparr>
      else es)"

text \<open>
  The exact lookup: three \<^verbatim>\<open>term\<close> filters, the third on the keyword field whose
  normalizer lowers the stored text and the queried term alike; \<^verbatim>\<open>size: 1\<close> and
  \<^verbatim>\<open>hits[0]\<close> give one matching document, here the first one written.
\<close>

definition exact_match ::
  "(jstring \<Rightarrow> jstring) \<Rightarrow> jstring \<Rightarrow> jstring \<Rightarrow> jstring \<Rightarrow> SearchHit \<Rightarrow> bool" where
  "exact_match lower src tgt txt h =
     (source_lang (hit_source h) = src \<and> target_lang (hit_source h) = tgt \<and>
      lower (source_text (hit_source h)) = lower (lower txt))"

definition find_translation_segment ::
  "(jstring \<Rightarrow> jstring) \<Rightarrow> jstring \<Rightarrow> jstring \<Rightarrow> jstring \<Rightarrow> jstring \<Rightarrow> elastic
     \<Rightarrow> error + SearchHit option" where
  "find_translation_segment lower index_name src tgt txt es =
     (case indices es index_name of
        None \<Rightarrow> Inl (ResponseError 404)
      | Some docs \<Rightarrow> Inr (find (exact_match lower src tgt txt) docs))"

text \<open>\<^verbatim>\<open>Promise.all\<close>: all the results in the order of the calls, or the first failure.\<close>

fun promise_all :: "(error + 'a) list \<Rightarrow> error + 'a list" where
  "promise_all [] = Inr []"
| "promise_all (r # rs) =
     (case r of
        Inl e \<Rightarrow> Inl e
      | Inr x \<Rightarrow> (case promise_all rs of Inl e \<Rightarrow> Inl e | Inr xs \<Rightarrow> Inr (x # xs)))"

text \<open>
  The bulk request: the body is a flat array, two entries an operation; here an
  operation is one value. The response has one item an operation, in order: the item of
  an \<^verbatim>\<open>index\<close> operation holds the new identifier under \<^verbatim>\<open>index\<close>, the item of an
  \<^verbatim>\<open>update\<close> under \<^verbatim>\<open>update\<close>.
\<close>

datatype bulk_operation =
    Update jstring nat "jstring option"
  | Index jstring TranslationDocument

datatype bulk_item =
    Update_item nat
  | Index_item nat

definition set_translation :: "nat \<Rightarrow> jstring option \<Rightarrow> SearchHit \<Rightarrow> SearchHit" where
  "set_translation i t h =
     (if hit_id h = i \<and> t \<noteq> None
      then h\<lparr>hit_source := (hit_source h)\<lparr>translated_text := t\<rparr>\<rparr>
      else h)"

fun apply_operation :: "bulk_operation \<Rightarrow> elastic \<Rightarrow> bulk_item \<times> elastic" where
  "apply_operation (Update index_name i t) es =
     (Update_item i,
      case indices es index_name of
        None \<Rightarrow> es
      | Some docs \<Rightarrow> es\<lparr>indices := (indices es)(index_name \<mapsto> map (set_translation i t) docs)\<rparr>)"
| "apply_operation (Index index_name doc) es =
     (Index_item (fresh es),
      es\<lparr>indices := (indices es)(index_name \<mapsto>
             stored es index_name @ [\<lparr>hit_id = fresh es, hit_source = doc\<rparr>]),
         fresh := Suc (fresh es)\<rparr>)"

fun bulk :: "bulk_operation list \<Rightarrow> elastic \<Rightarrow> bulk_item list \<times> elastic" where
  "bulk [] es = ([], es)"
| "bulk (operation # body) es =
     (let (item, es1) = apply_operation operation es;
          (items, es2) = bulk body es1
      in (item # items, es2))"

section \<open>Requests, responses and what is outside the repository\<close>

text \<open>
  What the handlers call and the repository does not hold: the case table of
  \<^verbatim>\<open>toLowerCase\<close>, the Unicode property tables, the sentence tokenizer, the ranking of the
  search engine's fuzzy query (given the documents of the language pair and the queried
  text, the top hit or none), the chat completion that \<^verbatim>\<open>chatgpt\<close> returns the content
  of (which the API types as a string or null), and the similarity percentage.

  The percentage is the number \<^verbatim>\<open>+(similarity * 100).toFixed(2)\<close> that \<^verbatim>\<open>fuzzy_search\<close>
  computes, in double precision, from \<^verbatim>\<open>stringSimilarity.compareTwoStrings\<close> of the queried
  segment and the hit's source text. The string-similarity package is not part of the
  repository and the arithmetic is floating point, so \<open>percentage\<close> stands for the
  number that comes out, whatever it is.
\<close>

record externals =
  to_lower_case :: "jstring \<Rightarrow> jstring"
  pictographic :: "nat \<Rightarrow> bool"
  sentences :: "jstring \<Rightarrow> jstring list"
  top_hit :: "SearchHit list \<Rightarrow> jstring \<Rightarrow> SearchHit option"
  completion :: "jstring \<Rightarrow> jstring \<Rightarrow> jstring \<Rightarrow> error + jstring option"
  percentage :: "jstring \<Rightarrow> jstring \<Rightarrow> number"

text \<open>The JSON body of a request; a field the body does not have is \<open>None\<close>.\<close>

record request_body =
  body_source_lang :: "jstring option"
  body_target_lang :: "jstring option"
  body_source_text :: "jstring option"
  body_translated_text :: "jstring option"

datatype action = inserted | updated

record add_result =
  add_segment :: jstring
  add_id :: "nat option"
  add_action :: action

datatype origin = CAT_Tool | ChatGPT

record translate_result =
  tr_segment :: jstring
  tr_translated_text :: "jstring option"
  tr_source_text :: "jstring option"
  tr_similarity :: number
  tr_source :: origin

text \<open>A response: a status with an error body, or status 200 with the flow's body.\<close>

datatype response =
    Failure nat
  | Added "add_result list"
  | Translated jstring "translate_result list"

fun handle_elastic_error :: "error \<Rightarrow> response" where
  "handle_elastic_error (ResponseError statusCode) =
     Failure (if statusCode = 0 then 500 else statusCode)"
| "handle_elastic_error ConnectionError = Failure 502"
| "handle_elastic_error TimeoutError = Failure 504"
| "handle_elastic_error _ = Failure 500"

definition translations_index :: "jstring \<Rightarrow> jstring" where
  "translations_index target = js ''translations('' @ target @ js '')''"

section \<open>The add flow\<close>

text \<open>
  The loop that builds the bulk body and the results, one entry a source segment.
  \<^verbatim>\<open>translated_segments\<close> is \<^verbatim>\<open>undefined\<close> when \<^verbatim>\<open>split_segments\<close> returned none, and
  indexing it throws; an index past the end of an array reads \<^verbatim>\<open>undefined\<close>.
\<close>

fun build_bulk ::
  "jstring \<Rightarrow> jstring \<Rightarrow> jstring \<Rightarrow> jstring list \<Rightarrow> jstring list option \<Rightarrow> SearchHit option list
     \<Rightarrow> error + (bulk_operation \<times> add_result) list" where
  "build_bulk index_name src tgt [] translated_segments hits = Inr []"
| "build_bulk index_name src tgt (source_segment # rest) translated_segments hits =
     (case translated_segments of
        None \<Rightarrow> Inl TypeError
      | Some ts \<Rightarrow>
          let translated_segment = (case ts of [] \<Rightarrow> None | t # _ \<Rightarrow> Some t);
              entry =
                (case hits of
                   Some hit # _ \<Rightarrow>
                     (Update index_name (hit_id hit) translated_segment,
                      \<lparr>add_segment = source_segment, add_id = Some (hit_id hit),
                       add_action = updated\<rparr>)
                 | _ \<Rightarrow>
                     (Index index_name
                        \<lparr>source_lang = src, target_lang = tgt, source_text = source_segment,
                         translated_text = translated_segment\<rparr>,
                      \<lparr>add_segment = source_segment, add_id = None, add_action = inserted\<rparr>))
          in case build_bulk index_name src tgt rest (Some (tl ts)) (tl hits) of
               Inl e \<Rightarrow> Inl e
             | Inr entries \<Rightarrow> Inr (entry # entries))"

text \<open>\<^verbatim>\<open>bulkResponse.items[insertIdx]?.index?._id || null\<close>\<close>

definition item_index_id :: "bulk_item list \<Rightarrow> nat \<Rightarrow> nat option" where
  "item_index_id items insertIdx =
     (case drop insertIdx items of
        Index_item i # _ \<Rightarrow> Some i
      | _ \<Rightarrow> None)"

fun map_back_ids :: "bulk_item list \<Rightarrow> nat \<Rightarrow> add_result list \<Rightarrow> add_result list" where
  "map_back_ids items insertIdx [] = []"
| "map_back_ids items insertIdx (r # results) =
     (if add_action r = inserted
      then r\<lparr>add_id := item_index_id items insertIdx\<rparr> # map_back_ids items (Suc insertIdx) results
      else r # map_back_ids items insertIdx results)"

text \<open>The handler from segmentation on, for fields that passed the check.\<close>

definition add_segments ::
  "externals \<Rightarrow> jstring \<Rightarrow> jstring \<Rightarrow> jstring \<Rightarrow> jstring \<Rightarrow> elastic \<Rightarrow> response \<times> elastic" where
  "add_segments ext src tgt text translation es =
     (let (source_segments, translated_segments) =
            (if tgt \<in> set non_segment_languages then ([text], Some [translation])
             else split_segments (sentences ext) text (Some translation));
          index_name = translations_index tgt;
          es1 = ensure_translations_index index_name es
      in case promise_all
                (map (\<lambda>segment. find_translation_segment (to_lower_case ext) index_name src tgt
                                  segment es1) source_segments) of
           Inl e \<Rightarrow> (handle_elastic_error e, es1)
         | Inr hits \<Rightarrow>
             (case build_bulk index_name src tgt source_segments translated_segments hits of
                Inl e \<Rightarrow> (handle_elastic_error e, es1)
              | Inr entries \<Rightarrow>
                  let bulkBody = map fst entries; results = map snd entries in
                  if bulkBody = [] then (Added results, es1)
                  else let (items, es2) = bulk bulkBody es1
                       in (Added (map_back_ids items 0 results), es2)))"

definition add_translation :: "externals \<Rightarrow> request_body \<Rightarrow> elastic \<Rightarrow> response \<times> elastic" where
  "add_translation ext body es =
     (let src = normalize_lang (to_lower_case ext) (body_source_lang body);
          tgt = normalize_lang (to_lower_case ext) (body_target_lang body)
      in case normalize_text_js (pictographic ext) (body_source_text body) of
           Inl e \<Rightarrow> (handle_elastic_error e, es)
         | Inr text \<Rightarrow>
             (case normalize_text_js (pictographic ext) (body_translated_text body) of
                Inl e \<Rightarrow> (handle_elastic_error e, es)
              | Inr translation \<Rightarrow>
                  if falsy src \<or> falsy tgt \<or> text = [] \<or> translation = []
                  then (Failure 400, es)
                  else add_segments ext (the src) (the tgt) text translation es))"

section \<open>The translate flow\<close>

text \<open>
  \<^verbatim>\<open>fuzzy_search\<close>: the two \<^verbatim>\<open>term\<close> filters leave the documents of the language pair,
  the engine ranks them against the text, and the top hit is scored and kept or dropped.
\<close>

definition fuzzy_search ::
  "externals \<Rightarrow> jstring \<Rightarrow> jstring \<Rightarrow> jstring \<Rightarrow> jstring \<Rightarrow> elastic
     \<Rightarrow> error + (SearchHit \<times> number) option" where
  "fuzzy_search ext index_name src tgt text es =
     (case indices es index_name of
        None \<Rightarrow> Inl (ResponseError 404)
      | Some docs \<Rightarrow>
          (case top_hit ext
                  (filter (\<lambda>h. source_lang (hit_source h) = src \<and> target_lang (hit_source h) = tgt)
                     docs) text of
             None \<Rightarrow> Inr None
           | Some hit \<Rightarrow>
               if below_50 (percentage ext text (source_text (hit_source hit))) then Inr None
               else Inr (Some (hit, percentage ext text (source_text (hit_source hit))))))"

text \<open>\<^verbatim>\<open>chatgpt\<close> returns the content of the first choice of the completion.\<close>

definition chatgpt :: "externals \<Rightarrow> jstring \<Rightarrow> jstring \<Rightarrow> jstring \<Rightarrow> error + jstring option" where
  "chatgpt ext src tgt segment_text = completion ext src tgt segment_text"

text \<open>The else branch of the function mapped over the source segments.\<close>

definition chatgpt_result :: "externals \<Rightarrow> jstring \<Rightarrow> jstring \<Rightarrow> jstring \<Rightarrow> error + translate_result" where
  "chatgpt_result ext src tgt source_segment =
     (case chatgpt ext src tgt source_segment of
        Inl e \<Rightarrow> Inl e
      | Inr translation \<Rightarrow>
          Inr \<lparr>tr_segment = source_segment, tr_translated_text = translation,
               tr_source_text = None, tr_similarity = Finite 0, tr_source = ChatGPT\<rparr>)"

text \<open>The function mapped over the source segments in the handler.\<close>

definition translate_segment ::
  "externals \<Rightarrow> jstring \<Rightarrow> jstring \<Rightarrow> jstring \<Rightarrow> elastic \<Rightarrow> jstring \<Rightarrow> error + translate_result" where
  "translate_segment ext index_name src tgt es source_segment =
     (case fuzzy_search ext index_name src tgt source_segment es of
        Inl e \<Rightarrow> Inl e
      | Inr None \<Rightarrow> chatgpt_result ext src tgt source_segment
      | Inr (Some (hit, similarity)) \<Rightarrow>
          if falsy (translated_text (hit_source hit))
          then chatgpt_result ext src tgt source_segment
          else Inr \<lparr>tr_segment = source_segment,
                    tr_translated_text = translated_text (hit_source hit),
                    tr_source_text = Some (source_text (hit_source hit)),
                    tr_similarity = similarity, tr_source = CAT_Tool\<rparr>)"

text \<open>\<^verbatim>\<open>join\<close> writes a null or undefined element as the empty string.\<close>

definition text_of :: "jstring option \<Rightarrow> jstring" where
  "text_of x = (case x of None \<Rightarrow> [] | Some s \<Rightarrow> s)"

definition translate :: "externals \<Rightarrow> request_body \<Rightarrow> elastic \<Rightarrow> response \<times> elastic" where
  "translate ext body es =
     (let src = normalize_lang (to_lower_case ext) (body_source_lang body);
          tgt = normalize_lang (to_lower_case ext) (body_target_lang body)
      in case normalize_text_js (pictographic ext) (body_source_text body) of
           Inl e \<Rightarrow> (handle_elastic_error e, es)
         | Inr text \<Rightarrow>
             if falsy src \<or> falsy tgt \<or> text = [] then (Failure 400, es)
             else
               let source_segments = fst (split_segments (sentences ext) text None);
                   index_name = translations_index (to_lower_case ext (the tgt));
                   es1 = ensure_translations_index index_name es
               in case promise_all
                         (map (translate_segment ext index_name (the src) (the tgt) es1)
                            source_segments) of
                    Inl e \<Rightarrow> (handle_elastic_error e, es1)
                  | Inr results \<Rightarrow>
                      (Translated (join [0x20] (map (\<lambda>r. text_of (tr_translated_text r)) results))
                         results,
                       es1))"

text \<open>
  Externals to run examples with, and a request body with its four fields. The scorer
  of the examples gives 100 for a text against itself and 0 for any other pair.
\<close>

definition demo :: externals where
  "demo = \<lparr>to_lower_case = ascii_lower, pictographic = pictographic_excerpt,
           sentences = plain_sentences,
           top_hit = (\<lambda>docs text. case docs of [] \<Rightarrow> None | h # _ \<Rightarrow> Some h),
           completion = (\<lambda>src tgt text. Inr (Some (js ''MT''))),
           percentage = (\<lambda>a b. if a = b then Finite 100 else Finite 0)\<rparr>"

text \<open>The same externals with a scorer that gives one percentage for every pair.\<close>

definition scoring :: "real \<Rightarrow> externals" where
  "scoring p = demo\<lparr>percentage := (\<lambda>a b. Finite p)\<rparr>"

definition request :: "string \<Rightarrow> string \<Rightarrow> string \<Rightarrow> string \<Rightarrow> request_body" where
  "request src tgt text translation =
     \<lparr>body_source_lang = Some (js src), body_target_lang = Some (js tgt),
      body_source_text = Some (js text), body_translated_text = Some (js translation)\<rparr>"

definition empty_cluster :: elastic where
  "empty_cluster = \<lparr>indices = Map.empty, fresh = 0\<rparr>"

text \<open>A cluster that holds one segment of the pair en, fr.\<close>

definition hello_document :: SearchHit where
  "hello_document =
     \<lparr>hit_id = 0,
      hit_source = \<lparr>source_lang = js ''en'', target_lang = js ''fr'',
                    source_text = js ''Hello there.'',
                    translated_text = Some (js ''Salut toi.'')\<rparr>\<rparr>"

definition hello_cluster :: elastic where
  "hello_cluster =
     \<lparr>indices = [translations_index (js ''fr'') \<mapsto> [hello_document]], fresh = 1\<rparr>"

text \<open>A cluster that holds one document, in the index of its target language.\<close>

definition single_cluster :: "TranslationDocument \<Rightarrow> elastic" where
  "single_cluster doc =
     \<lparr>indices = [translations_index (target_lang doc) \<mapsto> [\<lparr>hit_id = 0, hit_source = doc\<rparr>]],
      fresh = 1\<rparr>"

section \<open>Evaluating the examples\<close>

lemmas text_simps = js_def is_space_def white_space_def trim_def

lemmas normalize_simps =
  normalize_text_def js_def is_lead_def is_trail_def pictographic_excerpt_def
  is_space_def white_space_def trim_def

lemmas sentence_simps = plain_sentences_def ends_sentence_def js_def is_space_def white_space_def

lemma demo_fields:
  "to_lower_case demo = ascii_lower"
  "pictographic demo = pictographic_excerpt"
  "sentences demo = plain_sentences"
  "completion demo a b c = Inr (Some (js ''MT''))"
  "top_hit demo docs t = (case docs of [] \<Rightarrow> None | h # _ \<Rightarrow> Some h)"
  "percentage demo a b = (if a = b then Finite 100 else Finite 0)"
  by (simp_all add: demo_def)

lemma scoring_fields:
  "top_hit (scoring p) docs t = (case docs of [] \<Rightarrow> None | h # _ \<Rightarrow> Some h)"
  "completion (scoring p) a b c = Inr (Some (js ''MT''))"
  "percentage (scoring p) a b = Finite p"
  by (simp_all add: scoring_def demo_def)

lemma js_not_empty: "js (c # s) \<noteq> []"
  by (simp add: js_def)

lemma plain_sentences_hello_how:
  "plain_sentences (js ''Hello there. How are you?'') = [js ''Hello there.'', js ''How are you?'']"
  by (simp add: plain_sentences_def ends_sentence_def text_simps)

lemma plain_sentences_salut: "plain_sentences (js ''Salut.'') = [js ''Salut.'']"
  by (simp add: plain_sentences_def ends_sentence_def text_simps)

lemma trim_hello_how: "trim (js ''Hello there. How are you?'') = js ''Hello there. How are you?''"
  by (simp add: text_simps)

lemma trim_hello: "trim (js ''Hello there.'') = js ''Hello there.''"
  by (simp add: text_simps)

lemma trim_how: "trim (js ''How are you?'') = js ''How are you?''"
  by (simp add: text_simps)

lemma trim_salut: "trim (js ''Salut.'') = js ''Salut.''"
  by (simp add: text_simps)

lemma normalize_lang_en: "normalize_lang ascii_lower (Some (js ''en'')) = Some (js ''en'')"
  by (simp add: normalize_lang_def ascii_lower_def text_simps)

lemma normalize_lang_fr: "normalize_lang ascii_lower (Some (js ''fr'')) = Some (js ''fr'')"
  by (simp add: normalize_lang_def ascii_lower_def text_simps)

lemma normalize_lang_japanese:
  "normalize_lang ascii_lower (Some (js ''Japanese'')) = Some (js ''japanese'')"
  by (simp add: normalize_lang_def ascii_lower_def text_simps)

lemma ascii_lower_fr: "ascii_lower (js ''fr'') = js ''fr''"
  by (simp add: ascii_lower_def js_def)

lemma ascii_lower_japanese: "ascii_lower (js ''japanese'') = js ''japanese''"
  by (simp add: ascii_lower_def js_def)

lemma remove_tags_hello_how:
  "remove_tags (js ''Hello there. How are you?'') = js ''Hello there. How are you?''"
  by (simp add: js_def)

lemma remove_pictographic_hello_how:
  "remove_pictographic pictographic_excerpt (js ''Hello there. How are you?'')
     = js ''Hello there. How are you?''"
  by (simp add: js_def is_lead_def is_trail_def pictographic_excerpt_def)

lemma normalize_text_hello_how:
  "normalize_text pictographic_excerpt (js ''Hello there. How are you?'')
     = js ''Hello there. How are you?''"
  by (simp only: normalize_text_def remove_tags_hello_how remove_pictographic_hello_how
      trim_hello_how)

lemma normalize_text_konnichiwa:
  "normalize_text pictographic_excerpt (js ''Konnichiwa.'') = js ''Konnichiwa.''"
  by (simp add: normalize_simps)

lemma normalize_text_hello_hello:
  "normalize_text pictographic_excerpt (js ''Hello there. Hello there.'')
     = js ''Hello there. Hello there.''"
  by (simp add: normalize_simps)

lemma normalize_text_salut_salut:
  "normalize_text pictographic_excerpt (js ''Salut toi. Salut toi.'')
     = js ''Salut toi. Salut toi.''"
  by (simp add: normalize_simps)

lemma normalize_text_salut_ca_va:
  "normalize_text pictographic_excerpt (js ''Salut toi. Ca va?'') = js ''Salut toi. Ca va?''"
  by (simp add: normalize_simps)

lemma split_hello_how:
  "split_segments plain_sentences (js ''Hello there. How are you?'') None
     = ([js ''Hello there.'', js ''How are you?''], None)"
  by (simp add: split_segments_def plain_sentences_hello_how trim_hello trim_how)

lemma split_hello_hello:
  "split_segments plain_sentences (js ''Hello there. Hello there.'')
     (Some (js ''Salut toi. Salut toi.''))
   = ([js ''Hello there.'', js ''Hello there.''], Some [js ''Salut toi.'', js ''Salut toi.''])"
  by (simp add: split_segments_def sentence_simps trim_def)

lemma split_hello_how_salut:
  "split_segments plain_sentences (js ''Hello there. How are you?'')
     (Some (js ''Salut toi. Ca va?''))
   = ([js ''Hello there.'', js ''How are you?''], Some [js ''Salut toi.'', js ''Ca va?''])"
  by (simp add: split_segments_def sentence_simps trim_def)

lemma fr_segmenting: "js ''fr'' \<notin> set non_segment_languages"
  by (simp add: non_segment_languages_def js_def)

lemma japanese_not_segmenting: "js ''japanese'' \<in> set non_segment_languages"
  by (simp add: non_segment_languages_def)

lemma join_salut_mt: "join [0x20] [js ''Salut toi.'', js ''MT''] = js ''Salut toi. MT''"
  by (simp add: js_def)

lemma join_mt_mt: "join [0x20] [js ''MT'', js ''MT''] = js ''MT MT''"
  by (simp add: js_def)

section \<open>The normalizer on a missing field\<close>

lemma normalize_text_empty: "normalize_text pict [] = []"
  by (simp add: normalize_text_def trim_def)

text \<open>
  C4. The normalizer returns the empty string for the empty string, but it throws on an
  undefined argument: a request body without \<^verbatim>\<open>source_text\<close> makes both handlers answer
  with status 500, before the check that would answer 400.
\<close>

theorem normalize_text_undefined_throws:
  "normalize_text_js pict None = Inl TypeError \<and>
   normalize_text_js pict (Some []) = Inr [] \<and>
   add_translation ext (body\<lparr>body_source_text := None\<rparr>) es = (Failure 500, es) \<and>
   translate ext (body\<lparr>body_source_text := None\<rparr>) es = (Failure 500, es)"
  by (simp add: normalize_text_js_def add_translation_def translate_def normalize_text_empty)

section \<open>The normalizer applied twice\<close>

lemma space_not_surrogate: "is_space u \<Longrightarrow> \<not> is_lead u \<and> \<not> is_trail u"
  by (auto simp: is_space_def white_space_def is_lead_def is_trail_def)

lemma bracket_not_surrogate:
  "\<not> is_lead 0x3C" "\<not> is_trail 0x3C" "\<not> is_lead 0x3E" "\<not> is_trail 0x3E"
  by (simp_all add: is_lead_def is_trail_def)

lemma lead_not_trail: "is_lead u \<Longrightarrow> \<not> is_trail u"
proof
  assume "is_lead u" and "is_trail u"
  then have "(0xDC00 :: code_unit) \<le> u" and "u \<le> 0xDBFF"
    by (simp_all add: is_lead_def is_trail_def)
  then have "(0xDC00 :: code_unit) \<le> 0xDBFF"
    by (rule order_trans)
  then show False by simp
qed

lemma well_formed_Cons_plain:
  "\<not> is_lead u \<Longrightarrow> \<not> is_trail u \<Longrightarrow> well_formed (u # s) = well_formed s"
  by (cases s) simp_all

lemma well_formed_Cons_pair:
  "is_lead u \<Longrightarrow> well_formed (u # s) = (\<exists>v t. s = v # t \<and> is_trail v \<and> well_formed t)"
  by (cases s) simp_all

lemma well_formed_Cons_cases:
  assumes "well_formed (u # s)"
  shows "(\<not> is_lead u \<and> \<not> is_trail u \<and> well_formed s) \<or>
         (is_lead u \<and> (\<exists>v t. s = v # t \<and> is_trail v \<and> well_formed t))"
proof (cases "is_lead u")
  case True
  with assms show ?thesis by (simp add: well_formed_Cons_pair)
next
  case False
  with assms show ?thesis by (cases s) simp_all
qed

lemma well_formed_split:
  "\<not> is_lead x \<Longrightarrow> \<not> is_trail x \<Longrightarrow> well_formed (a @ x # b)
     \<Longrightarrow> well_formed a \<and> well_formed b"
proof (induction a rule: well_formed.induct)
  case 1
  then show ?case by (simp add: well_formed_Cons_plain)
next
  case (2 u)
  then show ?case by (auto split: if_splits simp: well_formed_Cons_plain)
next
  case (3 u v s)
  then show ?case by (auto split: if_splits)
qed

lemma well_formed_tag_rest:
  assumes "well_formed s" and "0x3E \<in> set s"
  shows "well_formed (tl (dropWhile (\<lambda>v. v \<noteq> 0x3E) s))"
proof -
  have "s = takeWhile (\<lambda>v. v \<noteq> 0x3E) s @ dropWhile (\<lambda>v. v \<noteq> 0x3E) s"
    by simp
  moreover have "dropWhile (\<lambda>v. v \<noteq> 0x3E) s \<noteq> []"
    using assms(2) by (simp add: dropWhile_eq_Nil_conv)
  moreover from this have "hd (dropWhile (\<lambda>v. v \<noteq> 0x3E) s) = 0x3E"
    using hd_dropWhile [of "\<lambda>v. v \<noteq> 0x3E" s] by simp
  ultimately have "s = takeWhile (\<lambda>v. v \<noteq> 0x3E) s @ 0x3E # tl (dropWhile (\<lambda>v. v \<noteq> 0x3E) s)"
    by (metis list.collapse)
  with assms(1) well_formed_split [of "0x3E" "takeWhile (\<lambda>v. v \<noteq> 0x3E) s"
      "tl (dropWhile (\<lambda>v. v \<noteq> 0x3E) s)"]
  show ?thesis by (simp add: bracket_not_surrogate)
qed

lemma well_formed_remove_tags: "well_formed s \<Longrightarrow> well_formed (remove_tags s)"
proof (induction s rule: length_induct)
  case (1 s)
  show ?case
  proof (cases s)
    case Nil
    then show ?thesis by simp
  next
    case (Cons u t)
    show ?thesis
    proof (cases "u = 0x3C \<and> 0x3E \<in> set t")
      case True
      with "1.prems" Cons have "well_formed t"
        by (simp add: well_formed_Cons_plain bracket_not_surrogate)
      with True have wf: "well_formed (tl (dropWhile (\<lambda>v. v \<noteq> 0x3E) t))"
        by (simp add: well_formed_tag_rest)
      have "length (tl (dropWhile (\<lambda>v. v \<noteq> 0x3E) t)) < length s"
        using length_dropWhile_le [of "\<lambda>v. v \<noteq> 0x3E" t] Cons by simp
      with "1.IH" wf have "well_formed (remove_tags (tl (dropWhile (\<lambda>v. v \<noteq> 0x3E) t)))"
        by blast
      with True Cons show ?thesis by simp
    next
      case False
      then have step: "remove_tags (u # t) = u # remove_tags t"
        by auto
      from "1.prems" Cons have "well_formed (u # t)" by simp
      then consider
        (plain) "\<not> is_lead u" "\<not> is_trail u" "well_formed t"
        | (pair) v r where "is_lead u" "t = v # r" "is_trail v" "well_formed r"
        using well_formed_Cons_cases [of u t] by blast
      then show ?thesis
      proof cases
        case plain
        with "1.IH" Cons have "well_formed (remove_tags t)" by simp
        with plain step Cons show ?thesis by (simp add: well_formed_Cons_plain)
      next
        case pair
        then have "v \<noteq> 0x3C"
          using bracket_not_surrogate by auto
        then have "remove_tags t = v # remove_tags r"
          using pair by simp
        moreover from "1.IH" Cons pair have "well_formed (remove_tags r)" by simp
        ultimately show ?thesis
          using step Cons pair by simp
      qed
    qed
  qed
qed

lemma length_remove_pictographic: "length (remove_pictographic p s) \<le> length s"
  by (induction p s rule: remove_pictographic.induct) auto

lemma remove_pictographic_Cons_plain:
  "\<not> is_lead u \<Longrightarrow>
   remove_pictographic p (u # s)
     = (if p (unat u) then remove_pictographic p s else u # remove_pictographic p s)"
  by (cases s) simp_all

lemma well_formed_remove_pictographic:
  "well_formed s \<Longrightarrow> well_formed (remove_pictographic p s)"
proof (induction p s rule: remove_pictographic.induct)
  case (1 p)
  then show ?case by simp
next
  case (2 p u)
  then show ?case by simp
next
  case (3 p u v s)
  show ?case
  proof (cases "is_lead u")
    case True
    with "3.prems" have "is_trail v" "well_formed s" by simp_all
    with True "3.IH" show ?thesis by simp
  next
    case False
    with "3.prems" have "\<not> is_trail u" "well_formed (v # s)" by simp_all
    with False "3.IH" show ?thesis by (simp add: well_formed_Cons_plain)
  qed
qed

lemma remove_pictographic_append:
  "well_formed a \<Longrightarrow>
   remove_pictographic p (a @ b) = remove_pictographic p a @ remove_pictographic p b"
proof (induction a rule: well_formed.induct)
  case 1
  then show ?case by simp
next
  case (2 u)
  then show ?case by (simp add: remove_pictographic_Cons_plain)
next
  case (3 u v s)
  show ?case
  proof (cases "is_lead u")
    case True
    with "3.prems" have "is_trail v" "well_formed s" by simp_all
    with True "3.IH" show ?thesis by simp
  next
    case False
    with "3.prems" have "well_formed (v # s)" by simp
    with False "3.IH" have
      "remove_pictographic p ((v # s) @ b)
         = remove_pictographic p (v # s) @ remove_pictographic p b"
      by simp
    with False show ?thesis
      using remove_pictographic_Cons_plain [of u p "(v # s) @ b"]
        remove_pictographic_Cons_plain [of u p "v # s"]
      by simp
  qed
qed

lemma remove_pictographic_twice:
  "well_formed s \<Longrightarrow>
   remove_pictographic p (remove_pictographic p s) = remove_pictographic p s"
proof (induction p s rule: remove_pictographic.induct)
  case (1 p)
  then show ?case by simp
next
  case (2 p u)
  then show ?case by simp
next
  case (3 p u v s)
  show ?case
  proof (cases "is_lead u")
    case True
    with "3.prems" have "is_trail v" "well_formed s" by simp_all
    with True "3.IH" show ?thesis by simp
  next
    case False
    with "3.prems" have "well_formed (v # s)" by simp
    with False "3.IH" show ?thesis
      using remove_pictographic_Cons_plain [of u p "remove_pictographic p (v # s)"]
      by simp
  qed
qed

lemma kept_append:
  assumes "well_formed a" and "remove_pictographic p (a @ b) = a @ b"
  shows "remove_pictographic p a = a \<and> remove_pictographic p b = b"
proof -
  from assms have eq: "remove_pictographic p a @ remove_pictographic p b = a @ b"
    by (simp add: remove_pictographic_append)
  then have "length (remove_pictographic p a) + length (remove_pictographic p b)
      = length a + length b"
    by (metis length_append)
  with length_remove_pictographic [of p a] length_remove_pictographic [of p b]
  have "length (remove_pictographic p a) = length a" by linarith
  with eq show ?thesis by simp
qed

lemma trim_parts:
  "\<exists>pre post. s = pre @ trim s @ post \<and> list_all is_space pre \<and> list_all is_space post"
proof -
  define d where "d = dropWhile is_space s"
  have s: "s = takeWhile is_space s @ d"
    by (simp add: d_def)
  have "rev (dropWhile is_space (rev d)) @ rev (takeWhile is_space (rev d))
      = rev (takeWhile is_space (rev d) @ dropWhile is_space (rev d))"
    by (simp only: rev_append)
  also have "\<dots> = rev (rev d)"
    by (simp only: takeWhile_dropWhile_id)
  finally have d: "d = trim s @ rev (takeWhile is_space (rev d))"
    by (simp add: trim_def d_def)
  have pre: "list_all is_space (takeWhile is_space s)"
    by (simp add: list_all_iff) (meson set_takeWhileD)
  have post: "list_all is_space (rev (takeWhile is_space (rev d)))"
    by (simp add: list_all_iff) (meson set_takeWhileD)
  from s d have "s = takeWhile is_space s @ trim s @ rev (takeWhile is_space (rev d))"
    by simp
  with pre post show ?thesis by blast
qed

lemma spaces_well_formed: "list_all is_space a \<Longrightarrow> well_formed a"
  by (induction a) (simp_all add: well_formed_Cons_plain space_not_surrogate)

lemma well_formed_append_left: "well_formed a \<Longrightarrow> well_formed (a @ b) = well_formed b"
proof (induction a rule: well_formed.induct)
  case 1
  then show ?case by simp
next
  case (2 u)
  then show ?case by (simp add: well_formed_Cons_plain)
next
  case (3 u v s)
  then show ?case by (auto split: if_splits)
qed

lemma well_formed_before_spaces:
  assumes "well_formed (m @ post)" and "list_all is_space post"
  shows "well_formed m"
proof (cases post)
  case Nil
  with assms show ?thesis by simp
next
  case (Cons x b)
  with assms have "\<not> is_lead x" "\<not> is_trail x"
    by (simp_all add: space_not_surrogate)
  with assms(1) Cons show ?thesis
    using well_formed_split [of x m b] by simp
qed

lemma trim_keeps:
  assumes "well_formed w" and "remove_pictographic p w = w"
  shows "well_formed (trim w) \<and> remove_pictographic p (trim w) = trim w"
proof -
  obtain pre post where w: "w = pre @ trim w @ post"
    and pre: "list_all is_space pre" and post: "list_all is_space post"
    using trim_parts [of w] by blast
  have wf_pre: "well_formed pre"
    using pre by (rule spaces_well_formed)
  from assms(1) w have "well_formed (pre @ trim w @ post)" by simp
  with wf_pre have rest: "well_formed (trim w @ post)"
    by (simp add: well_formed_append_left)
  then have wf_trim: "well_formed (trim w)"
    using post by (rule well_formed_before_spaces)
  from assms(2) w have "remove_pictographic p (pre @ trim w @ post) = pre @ trim w @ post"
    by simp
  with wf_pre have "remove_pictographic p (trim w @ post) = trim w @ post"
    using kept_append [of pre p "trim w @ post"] by simp
  with wf_trim have "remove_pictographic p (trim w) = trim w"
    using kept_append [of "trim w" p post] by simp
  with wf_trim show ?thesis by simp
qed

lemma last_dropWhile: "dropWhile P xs \<noteq> [] \<Longrightarrow> last (dropWhile P xs) = last xs"
  by (metis last_appendR takeWhile_dropWhile_id)

lemma trim_trimmed:
  "trim s = [] \<or> (\<not> is_space (hd (trim s)) \<and> \<not> is_space (last (trim s)))"
proof (cases "trim s = []")
  case True
  then show ?thesis by simp
next
  case False
  define d where "d = dropWhile is_space s"
  define e where "e = dropWhile is_space (rev d)"
  have t: "trim s = rev e"
    by (simp add: trim_def d_def e_def)
  with False have e: "e \<noteq> []" by simp
  then have "\<not> is_space (hd e)"
    unfolding e_def by (rule hd_dropWhile)
  then have l: "\<not> is_space (last (trim s))"
    using e t by (simp add: last_rev)
  from e have "last e = last (rev d)"
    unfolding e_def by (rule last_dropWhile)
  moreover from e have d: "d \<noteq> []"
    by (auto simp: e_def)
  ultimately have "last e = hd d"
    by (simp add: last_rev)
  moreover have "\<not> is_space (hd d)"
    using d unfolding d_def by (rule hd_dropWhile)
  ultimately have "\<not> is_space (hd (trim s))"
    using e t by (simp add: hd_rev)
  with l show ?thesis by simp
qed

lemma trim_fixed:
  assumes "s = [] \<or> (\<not> is_space (hd s) \<and> \<not> is_space (last s))"
  shows "trim s = s"
proof (cases "s = []")
  case True
  then show ?thesis by (simp add: trim_def)
next
  case False
  with assms have h: "\<not> is_space (hd s)" and l: "\<not> is_space (last s)" by simp_all
  from h have "dropWhile is_space s = s"
    by (simp add: dropWhile_eq_self_iff)
  moreover from l False have "dropWhile is_space (rev s) = rev s"
    by (simp add: dropWhile_eq_self_iff hd_rev)
  ultimately show ?thesis by (simp add: trim_def)
qed

lemma trim_twice: "trim (trim s) = trim s"
  using trim_trimmed [of s] by (rule trim_fixed)

lemma set_tl: "set (tl xs) \<subseteq> set xs"
  by (cases xs) auto

lemma set_tag_rest: "set (tl (dropWhile P s)) \<subseteq> set s"
proof -
  have "set (tl (dropWhile P s)) \<subseteq> set (dropWhile P s)"
    by (rule set_tl)
  also have "\<dots> \<subseteq> set s"
    by (auto dest: set_dropWhileD)
  finally show ?thesis .
qed

lemma set_remove_tags: "set (remove_tags s) \<subseteq> set s"
proof (induction s rule: remove_tags.induct)
  case 1
  then show ?case by simp
next
  case (2 u s)
  show ?case
  proof (cases "u = 0x3C \<and> 0x3E \<in> set s")
    case True
    with 2 have "set (remove_tags (u # s)) \<subseteq> set (tl (dropWhile (\<lambda>v. v \<noteq> 0x3E) s))"
      by simp
    also have "\<dots> \<subseteq> set s"
      by (rule set_tag_rest)
    finally show ?thesis by auto
  next
    case False
    with 2 have "set (remove_tags s) \<subseteq> set s" by simp
    moreover from False have "remove_tags (u # s) = u # remove_tags s" by auto
    ultimately show ?thesis by auto
  qed
qed

lemma no_tag_remove_tags: "no_tag (remove_tags s)"
proof (induction s rule: remove_tags.induct)
  case 1
  then show ?case by simp
next
  case (2 u s)
  show ?case
  proof (cases "u = 0x3C \<and> 0x3E \<in> set s")
    case True
    with 2 show ?thesis by simp
  next
    case False
    then have step: "remove_tags (u # s) = u # remove_tags s" by auto
    from False 2 have ih: "no_tag (remove_tags s)" by simp
    from False have "u \<noteq> 0x3C \<or> 0x3E \<notin> set (remove_tags s)"
      using set_remove_tags [of s] by blast
    with ih step show ?thesis by simp
  qed
qed

lemma no_tag_subseq: "subseq t s \<Longrightarrow> no_tag s \<Longrightarrow> no_tag t"
proof (induction rule: list_emb.induct)
  case (list_emb_Nil ys)
  then show ?case by simp
next
  case (list_emb_Cons xs ys y)
  then show ?case by simp
next
  case (list_emb_Cons2 x y xs ys)
  have sub: "set xs \<subseteq> set ys"
  proof
    fix a
    assume "a \<in> set xs"
    with list_emb_Cons2.hyps(2) obtain b where "b \<in> set ys" and "a = b"
      using list_emb_set [of "(=)" xs ys a] by blast
    then show "a \<in> set ys" by simp
  qed
  from list_emb_Cons2.prems have "y \<noteq> 0x3C \<or> 0x3E \<notin> set ys" and "no_tag ys"
    by simp_all
  with sub list_emb_Cons2.hyps(1) list_emb_Cons2.IH
  have "x \<noteq> 0x3C \<or> 0x3E \<notin> set xs" and "no_tag xs"
    by blast+
  then show ?case by simp
qed

lemma no_tag_fixed: "no_tag s \<Longrightarrow> remove_tags s = s"
  by (induction s) auto

lemma subseq_remove_pictographic: "subseq (remove_pictographic p s) s"
  by (induction p s rule: remove_pictographic.induct) auto

lemma subseq_trim: "subseq (trim s) s"
proof -
  obtain pre post where "s = pre @ trim s @ post"
    using trim_parts [of s] by blast
  moreover have "subseq (trim s) (pre @ trim s @ post)"
    by (intro subseq_drop_many subseq_rev_drop_many) simp
  ultimately show ?thesis by simp
qed

text \<open>
  C9, as amended. For every well-formed string x (one with no unpaired surrogate),
  normalize(normalize(x)) = normalize(x), whatever code points the two Unicode property
  tables hold.
\<close>

theorem normalize_text_idempotent:
  assumes "well_formed x"
  shows "normalize_text pict (normalize_text pict x) = normalize_text pict x"
proof -
  define z where "z = remove_tags x"
  define w where "w = remove_pictographic pict z"
  define y where "y = trim w"
  have "well_formed z"
    unfolding z_def using assms by (rule well_formed_remove_tags)
  then have wf_w: "well_formed w" and kept_w: "remove_pictographic pict w = w"
    unfolding w_def by (simp_all add: well_formed_remove_pictographic remove_pictographic_twice)
  then have kept_y: "remove_pictographic pict y = y"
    unfolding y_def using trim_keeps [of w pict] by simp
  have "no_tag z"
    unfolding z_def by (rule no_tag_remove_tags)
  then have "no_tag w"
    unfolding w_def using subseq_remove_pictographic by (rule no_tag_subseq [rotated])
  then have "no_tag y"
    unfolding y_def using subseq_trim by (rule no_tag_subseq [rotated])
  then have "remove_tags y = y"
    by (rule no_tag_fixed)
  with kept_y have "normalize_text pict y = trim y"
    by (simp add: normalize_text_def)
  also have "trim y = y"
    unfolding y_def by (rule trim_twice)
  finally show ?thesis
    by (simp add: normalize_text_def y_def w_def z_def)
qed

lemma well_formed_tagged_hi:
  "well_formed (js '' <b>Hi</b> '' @ [0xD83D, 0xDE00])"
  by (simp add: js_def is_lead_def is_trail_def)

lemma normalize_text_tagged_hi:
  "normalize_text pictographic_excerpt (js '' <b>Hi</b> '' @ [0xD83D, 0xDE00]) = js ''Hi''"
  by (simp add: normalize_simps pair_code_point_def)

theorem normalize_text_idempotent_witness:
  "well_formed (js '' <b>Hi</b> '' @ [0xD83D, 0xDE00]) \<and>
   normalize_text pictographic_excerpt (js '' <b>Hi</b> '' @ [0xD83D, 0xDE00]) = js ''Hi'' \<and>
   normalize_text pictographic_excerpt (js ''Hi'') = js ''Hi''"
  using normalize_text_idempotent [OF well_formed_tagged_hi, of pictographic_excerpt]
    well_formed_tagged_hi
  by (simp add: normalize_text_tagged_hi)

lemma normalize_text_joined_surrogates:
  "normalize_text pictographic_excerpt [0xD83D, 0xA9, 0xDE00] = [0xD83D, 0xDE00]"
  by (simp add: normalize_simps pair_code_point_def)

lemma normalize_text_grinning_face: "normalize_text pictographic_excerpt [0xD83D, 0xDE00] = []"
  by (simp add: normalize_simps pair_code_point_def)

text \<open>
  A lead surrogate, the copyright sign and a trail surrogate: the first pass removes the
  copyright sign, which leaves the pair that encodes U+1F600, and the second pass removes
  that.
\<close>

theorem normalize_text_surrogates_counterexample:
  "normalize_text pictographic_excerpt (normalize_text pictographic_excerpt [0xD83D, 0xA9, 0xDE00])
     \<noteq> normalize_text pictographic_excerpt [0xD83D, 0xA9, 0xDE00]"
  by (simp add: normalize_text_joined_surrogates normalize_text_grinning_face)

section \<open>Alignment fallback of the segmenter\<close>

text \<open>
  The add handler is the only caller that passes a target text, and it answers 400 on an
  empty one before it segments; \<^verbatim>\<open>!translated_text\<close> in \<^verbatim>\<open>split_segments\<close> is the test
  for the one-argument call of the translate handler.
\<close>

lemma add_translation_empty_translation:
  assumes "normalize_text_js (pictographic ext) (body_source_text body) = Inr text"
    and "normalize_text_js (pictographic ext) (body_translated_text body) = Inr []"
  shows "add_translation ext body es = (Failure 400, es)"
  using assms by (simp add: add_translation_def)

text \<open>
  C8. For every source text and every target text (a non-empty string) whose
  independent segmentations differ in length, \<^verbatim>\<open>split_segments\<close> returns exactly one
  pair: the whole trimmed source text and the whole trimmed target text.
\<close>

theorem split_segments_alignment_fallback:
  assumes "translated \<noteq> []"
    and "length (map trim (tok source)) \<noteq> length (map trim (tok translated))"
  shows "split_segments tok source (Some translated) = ([trim source], Some [trim translated])"
  using assms by (simp add: split_segments_def)

theorem split_segments_alignment_fallback_witness:
  "js ''Salut.'' \<noteq> [] \<and>
   length (map trim (plain_sentences (js ''Hello there. How are you?'')))
     \<noteq> length (map trim (plain_sentences (js ''Salut.''))) \<and>
   split_segments plain_sentences (js ''Hello there. How are you?'') (Some (js ''Salut.''))
     = ([js ''Hello there. How are you?''], Some [js ''Salut.''])"
proof -
  have a: "js ''Salut.'' \<noteq> []"
    by (simp add: js_def)
  have b: "length (map trim (plain_sentences (js ''Hello there. How are you?'')))
     \<noteq> length (map trim (plain_sentences (js ''Salut.'')))"
    by (simp only: plain_sentences_hello_how plain_sentences_salut) simp
  from split_segments_alignment_fallback [OF a b] a b show ?thesis
    by (simp only: trim_hello_how trim_salut) simp
qed

section \<open>The threshold of the translate flow\<close>

lemma chatgpt_result_source: "chatgpt_result ext src tgt seg = Inr r \<Longrightarrow> tr_source r = ChatGPT"
  by (auto simp: chatgpt_result_def split: sum.splits)

text \<open>
  C5, as amended. For a translate-flow segment whose fuzzy query retrieved a hit, with
  the percentage that \<^verbatim>\<open>fuzzy_search\<close> computed for it: \<^verbatim>\<open>fuzzy_search\<close> drops the hit
  exactly when the percentage is below 50, and the segment goes to the fallback translator
  exactly when the percentage is below 50 or the hit has no stored translation (missing
  or empty). Otherwise, so at 50 with a stored translation, the stored translation is
  returned with the percentage and the source CAT Tool; at 49 the fallback translator
  is called.
\<close>

theorem translate_segment_threshold:
  assumes "indices es index_name = Some docs"
    and "top_hit ext
           (filter (\<lambda>h. source_lang (hit_source h) = src \<and> target_lang (hit_source h) = tgt) docs)
           seg = Some hit"
  shows "((fuzzy_search ext index_name src tgt seg es = Inr None)
            = below_50 (percentage ext seg (source_text (hit_source hit)))) \<and>
         translate_segment ext index_name src tgt es seg
           = (if below_50 (percentage ext seg (source_text (hit_source hit)))
                 \<or> falsy (translated_text (hit_source hit))
              then chatgpt_result ext src tgt seg
              else Inr \<lparr>tr_segment = seg,
                        tr_translated_text = translated_text (hit_source hit),
                        tr_source_text = Some (source_text (hit_source hit)),
                        tr_similarity = percentage ext seg (source_text (hit_source hit)),
                        tr_source = CAT_Tool\<rparr>) \<and>
         ((\<exists>r. translate_segment ext index_name src tgt es seg = Inr r \<and> tr_source r = CAT_Tool)
            = (\<not> below_50 (percentage ext seg (source_text (hit_source hit)))
               \<and> translated_text (hit_source hit) \<noteq> None
               \<and> translated_text (hit_source hit) \<noteq> Some [])) \<and>
         \<not> below_50 (Finite 50) \<and> below_50 (Finite 49)"
proof -
  have search: "fuzzy_search ext index_name src tgt seg es
      = (if below_50 (percentage ext seg (source_text (hit_source hit))) then Inr None
         else Inr (Some (hit, percentage ext seg (source_text (hit_source hit)))))"
    using assms by (simp add: fuzzy_search_def)
  then have segment: "translate_segment ext index_name src tgt es seg
           = (if below_50 (percentage ext seg (source_text (hit_source hit)))
                 \<or> falsy (translated_text (hit_source hit))
              then chatgpt_result ext src tgt seg
              else Inr \<lparr>tr_segment = seg,
                        tr_translated_text = translated_text (hit_source hit),
                        tr_source_text = Some (source_text (hit_source hit)),
                        tr_similarity = percentage ext seg (source_text (hit_source hit)),
                        tr_source = CAT_Tool\<rparr>)"
    by (simp add: translate_segment_def)
  have "(\<exists>r. translate_segment ext index_name src tgt es seg = Inr r \<and> tr_source r = CAT_Tool)
            = (\<not> below_50 (percentage ext seg (source_text (hit_source hit)))
               \<and> translated_text (hit_source hit) \<noteq> None
               \<and> translated_text (hit_source hit) \<noteq> Some [])"
    unfolding segment
    by (auto simp: falsy_def dest: chatgpt_result_source)
  with search segment show ?thesis
    by (simp add: below_50_def)
qed

theorem translate_segment_threshold_witness:
  "translate_segment (scoring 50) (translations_index (js ''fr'')) (js ''en'') (js ''fr'')
     (single_cluster \<lparr>source_lang = js ''en'', target_lang = js ''fr'',
                      source_text = js ''abd'', translated_text = Some (js ''xyz'')\<rparr>)
     (js ''abc'')
   = Inr \<lparr>tr_segment = js ''abc'', tr_translated_text = Some (js ''xyz''),
          tr_source_text = Some (js ''abd''), tr_similarity = Finite 50,
          tr_source = CAT_Tool\<rparr> \<and>
   translate_segment (scoring 49) (translations_index (js ''fr'')) (js ''en'') (js ''fr'')
     (single_cluster \<lparr>source_lang = js ''en'', target_lang = js ''fr'',
                      source_text = js ''abd'', translated_text = Some (js ''xyz'')\<rparr>)
     (js ''abc'')
   = Inr \<lparr>tr_segment = js ''abc'', tr_translated_text = Some (js ''MT''),
          tr_source_text = None, tr_similarity = Finite 0, tr_source = ChatGPT\<rparr>"
proof -
  define doc where
    "doc = \<lparr>source_lang = js ''en'', target_lang = js ''fr'',
            source_text = js ''abd'', translated_text = Some (js ''xyz'')\<rparr>"
  have stored: "indices (single_cluster doc) (translations_index (js ''fr''))
      = Some [\<lparr>hit_id = 0, hit_source = doc\<rparr>]"
    by (simp add: single_cluster_def doc_def)
  have top: "top_hit (scoring p)
      (filter (\<lambda>h. source_lang (hit_source h) = js ''en'' \<and> target_lang (hit_source h) = js ''fr'')
         [\<lparr>hit_id = 0, hit_source = doc\<rparr>]) (js ''abc'')
      = Some \<lparr>hit_id = 0, hit_source = doc\<rparr>" for p
    by (simp add: scoring_fields doc_def)
  from translate_segment_threshold [OF stored top [of 50]]
    translate_segment_threshold [OF stored top [of 49]]
  show ?thesis
    unfolding doc_def
    by (simp add: scoring_fields below_50_def falsy_def js_not_empty chatgpt_result_def
        chatgpt_def)
qed

text \<open>
  A retrieved hit with percentage 100 whose document has no \<^verbatim>\<open>translated_text\<close>: the
  segment goes to the fallback translator all the same.
\<close>

theorem translate_segment_untranslated_counterexample:
  "percentage demo (js ''abc'') (js ''abc'') = Finite 100 \<and>
   \<not> below_50 (Finite 100) \<and>
   translate_segment demo (translations_index (js ''fr'')) (js ''en'') (js ''fr'')
     (single_cluster \<lparr>source_lang = js ''en'', target_lang = js ''fr'',
                      source_text = js ''abc'', translated_text = None\<rparr>)
     (js ''abc'')
   = Inr \<lparr>tr_segment = js ''abc'', tr_translated_text = Some (js ''MT''),
          tr_source_text = None, tr_similarity = Finite 0, tr_source = ChatGPT\<rparr>"
  by (simp add: below_50_def translate_segment_def fuzzy_search_def single_cluster_def
      demo_fields falsy_def chatgpt_result_def chatgpt_def)

section \<open>The translate flow writes no document\<close>

lemma stored_ensure: "stored (ensure_translations_index i es) n = stored es n"
  by (auto simp: stored_def ensure_translations_index_def split: option.splits)

lemma fresh_ensure: "fresh (ensure_translations_index i es) = fresh es"
  by (simp add: ensure_translations_index_def)

lemma translate_state:
  "snd (translate ext body es) = es \<or>
   (\<exists>i. snd (translate ext body es) = ensure_translations_index i es)"
  by (auto simp: translate_def Let_def split: sum.splits)

lemma find_translation_segment_stored:
  "(\<exists>h. find_translation_segment lw n s t x es = Inr (Some h)) =
   (\<exists>h. find (exact_match lw s t x) (stored es n) = Some h)"
  by (auto simp: find_translation_segment_def stored_def split: option.splits)

text \<open>
  C7. Whatever a translate request does (a rejected body, a failure of the search or of
  the fallback translator, or a response), every index holds the documents it held
  before, no identifier is handed out, and an exact lookup finds a hit after the request
  just when it found one before: the only thing the flow may write is an empty index.
\<close>

theorem translate_read_only:
  "stored (snd (translate ext body es)) index_name = stored es index_name \<and>
   fresh (snd (translate ext body es)) = fresh es \<and>
   ((\<exists>h. find_translation_segment lw index_name s t x (snd (translate ext body es)) = Inr (Some h))
     = (\<exists>h. find_translation_segment lw index_name s t x es = Inr (Some h)))"
proof -
  have st: "stored (snd (translate ext body es)) n = stored es n" for n
    using translate_state [of ext body es] by (auto simp: stored_ensure)
  have fr: "fresh (snd (translate ext body es)) = fresh es"
    using translate_state [of ext body es] by (auto simp: fresh_ensure)
  show ?thesis
    by (simp only: find_translation_segment_stored st fr)
qed

lemma translate_segment_no_documents:
  "translate_segment demo i src tgt (ensure_translations_index i empty_cluster) seg
   = Inr \<lparr>tr_segment = seg, tr_translated_text = Some (js ''MT''),
          tr_source_text = None, tr_similarity = Finite 0, tr_source = ChatGPT\<rparr>"
  by (simp add: translate_segment_def fuzzy_search_def ensure_translations_index_def
      empty_cluster_def demo_fields chatgpt_result_def chatgpt_def)

lemma translate_empty_cluster:
  "translate demo (request ''en'' ''fr'' ''Hello there. How are you?'' []) empty_cluster
   = (Translated (js ''MT MT'')
        [\<lparr>tr_segment = js ''Hello there.'', tr_translated_text = Some (js ''MT''),
          tr_source_text = None, tr_similarity = Finite 0, tr_source = ChatGPT\<rparr>,
         \<lparr>tr_segment = js ''How are you?'', tr_translated_text = Some (js ''MT''),
          tr_source_text = None, tr_similarity = Finite 0, tr_source = ChatGPT\<rparr>],
      ensure_translations_index (translations_index (js ''fr'')) empty_cluster)"
  by (simp add: translate_def request_def demo_fields normalize_lang_en normalize_lang_fr
      normalize_text_js_def normalize_text_hello_how falsy_def js_not_empty split_hello_how
      ascii_lower_fr translate_segment_no_documents text_of_def join_mt_mt del: join.simps)

theorem translate_read_only_witness:
  "fst (translate demo (request ''en'' ''fr'' ''Hello there. How are you?'' []) empty_cluster)
   = Translated (js ''MT MT'')
       [\<lparr>tr_segment = js ''Hello there.'', tr_translated_text = Some (js ''MT''),
         tr_source_text = None, tr_similarity = Finite 0, tr_source = ChatGPT\<rparr>,
        \<lparr>tr_segment = js ''How are you?'', tr_translated_text = Some (js ''MT''),
         tr_source_text = None, tr_similarity = Finite 0, tr_source = ChatGPT\<rparr>] \<and>
   stored (snd (translate demo (request ''en'' ''fr'' ''Hello there. How are you?'' [])
                  empty_cluster))
     (translations_index (js ''fr'')) = [] \<and>
   find_translation_segment ascii_lower (translations_index (js ''fr'')) (js ''en'') (js ''fr'')
     (js ''Hello there.'')
     (snd (translate demo (request ''en'' ''fr'' ''Hello there. How are you?'' []) empty_cluster))
   = Inr None"
proof -
  have before: "stored empty_cluster (translations_index (js ''fr'')) = []"
    by (simp add: stored_def empty_cluster_def)
  have after: "find_translation_segment ascii_lower (translations_index (js ''fr'')) (js ''en'')
      (js ''fr'') (js ''Hello there.'')
      (ensure_translations_index (translations_index (js ''fr'')) empty_cluster) = Inr None"
    by (simp add: find_translation_segment_def ensure_translations_index_def empty_cluster_def)
  from translate_read_only
    [of demo "request ''en'' ''fr'' ''Hello there. How are you?'' []" empty_cluster
      "translations_index (js ''fr'')"]
    before
  have "stored (snd (translate demo (request ''en'' ''fr'' ''Hello there. How are you?'' [])
                  empty_cluster))
     (translations_index (js ''fr'')) = []"
    by simp
  then show ?thesis
    by (simp add: translate_empty_cluster after)
qed

section \<open>The joined translation\<close>

lemma promise_all_map:
  "promise_all (map f xs) = Inr rs \<Longrightarrow> list_all2 (\<lambda>x r. f x = Inr r) xs rs"
proof (induction xs arbitrary: rs)
  case Nil
  then show ?case by simp
next
  case (Cons x xs)
  then show ?case
    by (auto split: sum.splits)
qed

lemma chatgpt_result_segment: "chatgpt_result ext src tgt seg = Inr r \<Longrightarrow> tr_segment r = seg"
  by (auto simp: chatgpt_result_def split: sum.splits)

lemma translate_segment_segment:
  "translate_segment ext i src tgt es seg = Inr r \<Longrightarrow> tr_segment r = seg"
  by (auto simp: translate_segment_def split: sum.splits option.splits if_splits
      dest: chatgpt_result_segment)

lemma translate_segments_in_order:
  assumes "promise_all (map (translate_segment ext i src tgt es) segs) = Inr rs"
  shows "map tr_segment rs = segs"
proof -
  have "list_all2 (\<lambda>x r. translate_segment ext i src tgt es x = Inr r) segs rs"
    using assms by (rule promise_all_map)
  then have "list_all2 (\<lambda>x r. tr_segment r = x) segs rs"
    by (rule list_all2_mono) (simp add: translate_segment_segment)
  then show ?thesis
    by (induction segs rs rule: list_all2_induct) simp_all
qed

lemma handle_elastic_error_failure: "\<exists>n. handle_elastic_error e = Failure n"
  by (cases e) simp_all

lemma handle_elastic_error_not_translated [simp]:
  "handle_elastic_error e \<noteq> Translated whole results"
  using handle_elastic_error_failure [of e] by auto

text \<open>
  C10. When a translate request is answered with a response, its top-level
  \<^verbatim>\<open>translated_text\<close> is the segments' \<^verbatim>\<open>translated_text\<close> values joined with one
  space, and the segments are the segments of the normalized source text in their
  order, whichever of the store and the fallback translator each translation came from.
\<close>

theorem translate_joined_in_order:
  assumes "translate ext body es = (Translated whole results, es')"
  shows "whole = join [0x20] (map (\<lambda>r. text_of (tr_translated_text r)) results) \<and>
         (\<exists>s. body_source_text body = Some s \<and>
              map tr_segment results
                = fst (split_segments (sentences ext) (normalize_text (pictographic ext) s) None))"
proof (cases "body_source_text body")
  case None
  with assms show ?thesis
    by (simp add: translate_def normalize_text_js_def)
next
  case (Some s)
  define segs where "segs = fst (split_segments (sentences ext) (normalize_text (pictographic ext) s) None)"
  define src where "src = the (normalize_lang (to_lower_case ext) (body_source_lang body))"
  define tgt where "tgt = the (normalize_lang (to_lower_case ext) (body_target_lang body))"
  define es1 where "es1 = ensure_translations_index (translations_index (to_lower_case ext tgt)) es"
  define outcome where
    "outcome = promise_all (map (translate_segment ext (translations_index (to_lower_case ext tgt))
                                   src tgt es1) segs)"
  from assms Some have run:
    "outcome = Inr results \<and>
     whole = join [0x20] (map (\<lambda>r. text_of (tr_translated_text r)) results)"
    unfolding outcome_def es1_def segs_def src_def tgt_def
    by (auto simp: translate_def Let_def normalize_text_js_def split: sum.splits if_splits)
  then have "outcome = Inr results"
    by simp
  then have "map tr_segment results = segs"
    unfolding outcome_def by (rule translate_segments_in_order)
  with run Some show ?thesis
    by (simp add: segs_def)
qed

lemma how_not_hello: "js ''How are you?'' \<noteq> js ''Hello there.''"
  by (simp add: js_def)

lemma ensure_hello_cluster:
  "ensure_translations_index (translations_index (js ''fr'')) hello_cluster = hello_cluster"
  by (simp add: ensure_translations_index_def hello_cluster_def)

lemma translate_segment_hello:
  "translate_segment demo (translations_index (js ''fr'')) (js ''en'') (js ''fr'') hello_cluster
     (js ''Hello there.'')
   = Inr \<lparr>tr_segment = js ''Hello there.'', tr_translated_text = Some (js ''Salut toi.''),
          tr_source_text = Some (js ''Hello there.''), tr_similarity = Finite 100,
          tr_source = CAT_Tool\<rparr>"
  by (simp add: translate_segment_def fuzzy_search_def hello_cluster_def hello_document_def
      demo_fields below_50_def falsy_def js_not_empty)

lemma translate_segment_how:
  "translate_segment demo (translations_index (js ''fr'')) (js ''en'') (js ''fr'') hello_cluster
     (js ''How are you?'')
   = Inr \<lparr>tr_segment = js ''How are you?'', tr_translated_text = Some (js ''MT''),
          tr_source_text = None, tr_similarity = Finite 0, tr_source = ChatGPT\<rparr>"
  by (simp add: translate_segment_def fuzzy_search_def hello_cluster_def hello_document_def
      demo_fields how_not_hello below_50_def chatgpt_result_def chatgpt_def)

lemma translate_hello_cluster:
  "translate demo (request ''en'' ''fr'' ''Hello there. How are you?'' []) hello_cluster
   = (Translated (js ''Salut toi. MT'')
        [\<lparr>tr_segment = js ''Hello there.'', tr_translated_text = Some (js ''Salut toi.''),
          tr_source_text = Some (js ''Hello there.''), tr_similarity = Finite 100,
          tr_source = CAT_Tool\<rparr>,
         \<lparr>tr_segment = js ''How are you?'', tr_translated_text = Some (js ''MT''),
          tr_source_text = None, tr_similarity = Finite 0, tr_source = ChatGPT\<rparr>],
      hello_cluster)"
  by (simp add: translate_def request_def demo_fields normalize_lang_en normalize_lang_fr
      normalize_text_js_def normalize_text_hello_how falsy_def js_not_empty split_hello_how
      ascii_lower_fr ensure_hello_cluster translate_segment_hello translate_segment_how
      text_of_def join_salut_mt del: join.simps)

theorem translate_joined_in_order_witness:
  "translate demo (request ''en'' ''fr'' ''Hello there. How are you?'' []) hello_cluster
   = (Translated (js ''Salut toi. MT'')
        [\<lparr>tr_segment = js ''Hello there.'', tr_translated_text = Some (js ''Salut toi.''),
          tr_source_text = Some (js ''Hello there.''), tr_similarity = Finite 100,
          tr_source = CAT_Tool\<rparr>,
         \<lparr>tr_segment = js ''How are you?'', tr_translated_text = Some (js ''MT''),
          tr_source_text = None, tr_similarity = Finite 0, tr_source = ChatGPT\<rparr>],
      hello_cluster) \<and>
   js ''Salut toi. MT'' = join [0x20] [js ''Salut toi.'', js ''MT'']"
  using translate_joined_in_order [OF translate_hello_cluster] translate_hello_cluster
  by (simp add: text_of_def del: join.simps)

section \<open>Non-segmenting languages\<close>

lemma add_segments_japanese:
  "fst (add_segments demo (js ''en'') (js ''japanese'') (js ''Hello there. How are you?'')
         (js ''Konnichiwa.'') empty_cluster)
   = Added [\<lparr>add_segment = js ''Hello there. How are you?'', add_id = Some 0,
             add_action = inserted\<rparr>]"
  by (simp add: add_segments_def japanese_not_segmenting ensure_translations_index_def
      empty_cluster_def find_translation_segment_def stored_def item_index_id_def)

text \<open>
  C3. For the target language japanese the add flow stores the whole normalized source
  text as one segment, but the translate flow calls \<^verbatim>\<open>split_segments\<close> whatever the
  language is: the same two-sentence text is looked up as two segments.
\<close>

theorem translate_segments_non_segment_language:
  "fst (add_translation demo
         (request ''en'' ''Japanese'' ''Hello there. How are you?'' ''Konnichiwa.'')
         empty_cluster)
   = Added [\<lparr>add_segment = js ''Hello there. How are you?'', add_id = Some 0,
             add_action = inserted\<rparr>] \<and>
   fst (translate demo (request ''en'' ''Japanese'' ''Hello there. How are you?'' [])
         empty_cluster)
   = Translated (js ''MT MT'')
       [\<lparr>tr_segment = js ''Hello there.'', tr_translated_text = Some (js ''MT''),
         tr_source_text = None, tr_similarity = Finite 0, tr_source = ChatGPT\<rparr>,
        \<lparr>tr_segment = js ''How are you?'', tr_translated_text = Some (js ''MT''),
         tr_source_text = None, tr_similarity = Finite 0, tr_source = ChatGPT\<rparr>]"
proof -
  have add: "add_translation demo
         (request ''en'' ''Japanese'' ''Hello there. How are you?'' ''Konnichiwa.'')
         empty_cluster
     = add_segments demo (js ''en'') (js ''japanese'') (js ''Hello there. How are you?'')
         (js ''Konnichiwa.'') empty_cluster"
    by (simp add: add_translation_def request_def demo_fields normalize_lang_en
        normalize_lang_japanese normalize_text_js_def normalize_text_hello_how
        normalize_text_konnichiwa falsy_def js_not_empty)
  have tr: "fst (translate demo (request ''en'' ''Japanese'' ''Hello there. How are you?'' [])
         empty_cluster)
   = Translated (js ''MT MT'')
       [\<lparr>tr_segment = js ''Hello there.'', tr_translated_text = Some (js ''MT''),
         tr_source_text = None, tr_similarity = Finite 0, tr_source = ChatGPT\<rparr>,
        \<lparr>tr_segment = js ''How are you?'', tr_translated_text = Some (js ''MT''),
         tr_source_text = None, tr_similarity = Finite 0, tr_source = ChatGPT\<rparr>]"
    by (simp add: translate_def request_def demo_fields normalize_lang_en
        normalize_lang_japanese normalize_text_js_def normalize_text_hello_how falsy_def
        js_not_empty split_hello_how translate_segment_no_documents text_of_def join_mt_mt
        del: join.simps)
  show ?thesis
    by (simp only: add add_segments_japanese tr)
qed

section \<open>Repeated sentences and identifiers in the add flow\<close>

lemma find_hello_in_hello_cluster:
  "find_translation_segment ascii_lower (translations_index (js ''fr'')) (js ''en'') (js ''fr'')
     (js ''Hello there.'') hello_cluster = Inr (Some hello_document)"
  by (simp add: find_translation_segment_def hello_cluster_def hello_document_def
      exact_match_def ascii_lower_def js_def)

lemma find_how_in_hello_cluster:
  "find_translation_segment ascii_lower (translations_index (js ''fr'')) (js ''en'') (js ''fr'')
     (js ''How are you?'') hello_cluster = Inr None"
  by (simp add: find_translation_segment_def hello_cluster_def hello_document_def
      exact_match_def ascii_lower_def js_def)

lemma add_segments_hello_hello:
  "add_segments demo (js ''en'') (js ''fr'') (js ''Hello there. Hello there.'')
     (js ''Salut toi. Salut toi.'') empty_cluster
   = (Added [\<lparr>add_segment = js ''Hello there.'', add_id = Some 0, add_action = inserted\<rparr>,
             \<lparr>add_segment = js ''Hello there.'', add_id = Some 1, add_action = inserted\<rparr>],
      \<lparr>indices = [translations_index (js ''fr'') \<mapsto>
          [\<lparr>hit_id = 0,
            hit_source = \<lparr>source_lang = js ''en'', target_lang = js ''fr'',
                          source_text = js ''Hello there.'',
                          translated_text = Some (js ''Salut toi.'')\<rparr>\<rparr>,
           \<lparr>hit_id = 1,
            hit_source = \<lparr>source_lang = js ''en'', target_lang = js ''fr'',
                          source_text = js ''Hello there.'',
                          translated_text = Some (js ''Salut toi.'')\<rparr>\<rparr>]],
       fresh = 2\<rparr>)"
  by (simp add: add_segments_def fr_segmenting demo_fields split_hello_hello
      ensure_translations_index_def empty_cluster_def find_translation_segment_def stored_def
      item_index_id_def numeral_2_eq_2)

lemma add_translation_hello_hello:
  "add_translation demo
     (request ''en'' ''fr'' ''Hello there. Hello there.'' ''Salut toi. Salut toi.'') empty_cluster
   = add_segments demo (js ''en'') (js ''fr'') (js ''Hello there. Hello there.'')
       (js ''Salut toi. Salut toi.'') empty_cluster"
  by (simp add: add_translation_def request_def demo_fields normalize_lang_en
      normalize_lang_fr normalize_text_js_def normalize_text_hello_hello
      normalize_text_salut_salut falsy_def js_not_empty)

text \<open>
  C1. All the exact lookups of a request run before its one bulk write, so a sentence
  that occurs twice in a request on a cluster that does not hold it is inserted twice:
  two results with action inserted, and afterwards two stored segments whose source text
  matches it case-insensitively.
\<close>

theorem add_translation_repeated_sentence:
  "fst (add_translation demo
         (request ''en'' ''fr'' ''Hello there. Hello there.'' ''Salut toi. Salut toi.'')
         empty_cluster)
   = Added [\<lparr>add_segment = js ''Hello there.'', add_id = Some 0, add_action = inserted\<rparr>,
            \<lparr>add_segment = js ''Hello there.'', add_id = Some 1, add_action = inserted\<rparr>] \<and>
   map (\<lambda>h. source_text (hit_source h))
     (stored (snd (add_translation demo
                     (request ''en'' ''fr'' ''Hello there. Hello there.'' ''Salut toi. Salut toi.'')
                     empty_cluster))
        (translations_index (js ''fr'')))
   = [js ''Hello there.'', js ''Hello there.''] \<and>
   length
     (filter (exact_match ascii_lower (js ''en'') (js ''fr'') (js ''hello there.''))
        (stored (snd (add_translation demo
                        (request ''en'' ''fr'' ''Hello there. Hello there.''
                           ''Salut toi. Salut toi.'')
                        empty_cluster))
           (translations_index (js ''fr''))))
   = 2"
  unfolding add_translation_hello_hello add_segments_hello_hello
  by (simp add: stored_def exact_match_def ascii_lower_def js_def)

lemma add_segments_hello_how:
  "add_segments demo (js ''en'') (js ''fr'') (js ''Hello there. How are you?'')
     (js ''Salut toi. Ca va?'') hello_cluster
   = (Added [\<lparr>add_segment = js ''Hello there.'', add_id = Some 0, add_action = updated\<rparr>,
             \<lparr>add_segment = js ''How are you?'', add_id = None, add_action = inserted\<rparr>],
      \<lparr>indices = [translations_index (js ''fr'') \<mapsto>
          [hello_document,
           \<lparr>hit_id = 1,
            hit_source = \<lparr>source_lang = js ''en'', target_lang = js ''fr'',
                          source_text = js ''How are you?'',
                          translated_text = Some (js ''Ca va?'')\<rparr>\<rparr>]],
       fresh = 2\<rparr>)"
  apply (simp add: add_segments_def fr_segmenting demo_fields split_hello_how_salut
      ensure_hello_cluster find_hello_in_hello_cluster find_how_in_hello_cluster)
  apply (simp add: hello_cluster_def hello_document_def set_translation_def stored_def
      item_index_id_def numeral_2_eq_2)
  done

lemma add_translation_hello_how:
  "add_translation demo
     (request ''en'' ''fr'' ''Hello there. How are you?'' ''Salut toi. Ca va?'') hello_cluster
   = add_segments demo (js ''en'') (js ''fr'') (js ''Hello there. How are you?'')
       (js ''Salut toi. Ca va?'') hello_cluster"
  by (simp add: add_translation_def request_def demo_fields normalize_lang_en
      normalize_lang_fr normalize_text_js_def normalize_text_hello_how
      normalize_text_salut_ca_va falsy_def js_not_empty)

text \<open>
  C2. An insert that follows an update: the bulk response's item 0 belongs to the
  update, and the handler reads the identifier of the first insert from item 0. The new
  segment is stored under identifier 1, and its result carries no identifier.
\<close>

theorem add_translation_insert_after_update:
  "fst (add_translation demo
         (request ''en'' ''fr'' ''Hello there. How are you?'' ''Salut toi. Ca va?'')
         hello_cluster)
   = Added [\<lparr>add_segment = js ''Hello there.'', add_id = Some 0, add_action = updated\<rparr>,
            \<lparr>add_segment = js ''How are you?'', add_id = None, add_action = inserted\<rparr>] \<and>
   stored (snd (add_translation demo
                  (request ''en'' ''fr'' ''Hello there. How are you?'' ''Salut toi. Ca va?'')
                  hello_cluster))
     (translations_index (js ''fr''))
   = [hello_document,
      \<lparr>hit_id = 1,
       hit_source = \<lparr>source_lang = js ''en'', target_lang = js ''fr'',
                     source_text = js ''How are you?'',
                     translated_text = Some (js ''Ca va?'')\<rparr>\<rparr>]"
  by (simp add: add_translation_hello_how add_segments_hello_how stored_def)

end
